theory Spec2Isabelle
  imports Complex_Main "HOL-Library.Sublist"
begin

section \<open>Python strings\<close>

text \<open>
  Strings are byte strings (UTF-8). \<open>str.lower\<close> and \<open>str.strip\<close> are modelled on
  the ASCII range: the letters A-Z are lowered, the ASCII white space characters are
  stripped, every other byte is left as it is.
\<close>

definition lower_char :: "char \<Rightarrow> char" where
  "lower_char c =
     (case map_of (zip ''ABCDEFGHIJKLMNOPQRSTUVWXYZ'' ''abcdefghijklmnopqrstuvwxyz'') c of
        Some d \<Rightarrow> d
      | None \<Rightarrow> c)"

definition str_lower :: "string \<Rightarrow> string" where
  "str_lower s = map lower_char s"

definition is_space :: "char \<Rightarrow> bool" where
  "is_space c = (c \<in> set [CHR 0x09, CHR 0x0A, CHR 0x0B, CHR 0x0C, CHR 0x0D,
                            CHR 0x1C, CHR 0x1D, CHR 0x1E, CHR 0x1F, CHR 0x20])"

definition lstrip :: "string \<Rightarrow> string" where
  "lstrip s = dropWhile is_space s"

definition rstrip :: "string \<Rightarrow> string" where
  "rstrip s = rev (dropWhile is_space (rev s))"

definition strip :: "string \<Rightarrow> string" where
  "strip s = lstrip (rstrip s)"

text \<open>\<open>needle in haystack\<close> on strings: a contiguous occurrence.\<close>

fun str_in :: "string \<Rightarrow> string \<Rightarrow> bool" where
  "str_in needle [] = (needle = [])"
| "str_in needle (c # cs) = (prefix needle (c # cs) \<or> str_in needle cs)"



section \<open>Exceptions\<close>

text \<open>
  The exceptions the code raises itself, and \<open>LibraryError\<close> for any exception that
  comes out of a call into an external library (LLM client, vector store, loaders, mail,
  ORM). Each carries its message.
\<close>

datatype exn =
    ValidationError string
  | ImproperlyConfigured string
  | DoesNotExist string
  | HttpError nat string
  | LibraryError string

text \<open>\<open>str(exc)\<close>, as the code formats it into messages.\<close>

fun str_exc :: "exn \<Rightarrow> string" where
  "str_exc (ValidationError m) = ''['' @ [CHR 0x27] @ m @ [CHR 0x27] @ '']''"
| "str_exc (ImproperlyConfigured m) = m"
| "str_exc (DoesNotExist m) = m"
| "str_exc (HttpError code m) = m"
| "str_exc (LibraryError m) = m"





section \<open>The query router (agents/langgraph_agent.py, QueryRouter)\<close>

text \<open>
  What \<open>llm.invoke(prompt)\<close> gives: it raises, or it returns a response object. The
  router reads \<open>response.content\<close> when the object has that attribute and
  \<open>str(response)\<close> otherwise; a content that is not a string has no \<open>strip\<close>, so
  the call \<open>content.strip()\<close> raises inside the \<open>try\<close>.
\<close>

datatype llm_content = TextContent string | OtherContent

datatype llm_response = WithContent llm_content | NoContent string

type_synonym llm = "string \<Rightarrow> exn + llm_response"

definition router_prompt :: "string \<Rightarrow> string" where
  "router_prompt query =
     ''You classify questions for a real-estate sales agent.\<newline>'' @
     ''Respond with only '' @ [CHR 0x60] @ ''T2SQL'' @ [CHR 0x60] @
     '' if the question requires analytical metrics, SQL aggregates, numeric summaries, or CRM counts/averages.\<newline>'' @
     ''Respond with only '' @ [CHR 0x60] @ ''RAG'' @ [CHR 0x60] @
     '' if the question requires brochure content, amenities, descriptions, copywriting, scheduling, or follow-up messaging.\<newline>'' @
     ''Question: '' @ query @ ''\<newline>'' @
     ''Answer (T2SQL or RAG):''"

definition sql_keywords :: "string list" where
  "sql_keywords =
     [''count'', ''number'', ''total'', ''average'', ''avg'', ''sum'', ''ratio'',
      ''metrics'', ''how many'', ''max'', ''min'', ''budget'', ''revenue'']"

text \<open>The code after the \<open>try\<close> block: the keyword heuristic on the lowered query.\<close>

definition heuristic_route :: "string \<Rightarrow> string" where
  "heuristic_route query =
     (let text = str_lower query in
      if list_ex (\<lambda>keyword. str_in keyword text) sql_keywords then ''t2sql'' else ''rag'')"

text \<open>
  The content the \<open>try\<close> block works on; \<open>None\<close> when an exception ends the block
  (the call raised, or the content has no \<open>strip\<close>).
\<close>

fun response_content :: "exn + llm_response \<Rightarrow> string option" where
  "response_content (Inl exc) = None"
| "response_content (Inr (WithContent (TextContent content))) = Some content"
| "response_content (Inr (WithContent OtherContent)) = None"
| "response_content (Inr (NoContent s)) = Some s"

definition decide :: "llm \<Rightarrow> string \<Rightarrow> string" where
  "decide llm query =
     (case response_content (llm (router_prompt query)) of
        None \<Rightarrow> heuristic_route query
      | Some content \<Rightarrow>
          (let decision = str_lower (strip content) in
           if str_in ''sql'' decision then ''t2sql''
           else if str_in ''rag'' decision then ''rag''
           else heuristic_route query))"


section \<open>The SQL answer formatter (agents/langgraph_agent.py, T2SQLAnswerFormatter)\<close>

text \<open>
  A result row is a dictionary from column names to values, in column order. The values
  that reach the formatter are rendered with \<open>str\<close>; NULL, integers and text are
  modelled.
\<close>

datatype sql_value = SqlNull | SqlInt int | SqlText string


type_synonym row = "(string \<times> sql_value) list"

record text_to_sql_result =
  sql :: string
  rows :: "row list"
  explanation :: string





section \<open>Campaign leads (campaigns/models.py)\<close>

text \<open>Times are instants on a clock; each call of \<open>timezone.now()\<close> is a reading.\<close>

type_synonym datetime = nat

text \<open>\<open>MessageStatus\<close>: the values stored in \<open>CampaignLead.status\<close>.\<close>

definition PENDING :: string where "PENDING = ''pending''"
definition RESPONDED :: string where "RESPONDED = ''responded''"
definition GOAL_MET :: string where "GOAL_MET = ''goal_met''"

record campaign_lead =
  cl_id :: nat
  campaign_id :: nat
  lead_id :: nat
  shortlisted_at :: datetime
  personalized_message :: string
  dispatch_time :: "datetime option"
  status :: string
  goal_outcome :: string
  scheduled_datetime :: "datetime option"
  last_customer_message_at :: "datetime option"
  last_agent_message_at :: "datetime option"
  updated_at :: datetime

text \<open>
  \<open>Model.save(update_fields=[...])\<close>: an UPDATE of the row with the object's primary
  key that writes the named columns from the object and no other. A field with
  \<open>auto_now\<close> (\<open>updated_at\<close>) takes a fresh clock reading when it is among the fields
  written. The update of a row that does not exist raises.
\<close>

definition write_column :: "string \<Rightarrow> campaign_lead \<Rightarrow> campaign_lead \<Rightarrow> campaign_lead" where
  "write_column name obj row =
     (if name = ''shortlisted_at'' then row\<lparr>shortlisted_at := shortlisted_at obj\<rparr>
      else if name = ''personalized_message''
        then row\<lparr>personalized_message := personalized_message obj\<rparr>
      else if name = ''dispatch_time'' then row\<lparr>dispatch_time := dispatch_time obj\<rparr>
      else if name = ''status'' then row\<lparr>status := status obj\<rparr>
      else if name = ''goal_outcome'' then row\<lparr>goal_outcome := goal_outcome obj\<rparr>
      else if name = ''scheduled_datetime''
        then row\<lparr>scheduled_datetime := scheduled_datetime obj\<rparr>
      else if name = ''last_customer_message_at''
        then row\<lparr>last_customer_message_at := last_customer_message_at obj\<rparr>
      else if name = ''last_agent_message_at''
        then row\<lparr>last_agent_message_at := last_agent_message_at obj\<rparr>
      else if name = ''updated_at'' then row\<lparr>updated_at := updated_at obj\<rparr>
      else row)"

definition save ::
  "string list \<Rightarrow> datetime \<Rightarrow> campaign_lead \<Rightarrow> (nat \<rightharpoonup> campaign_lead)
     \<Rightarrow> exn + campaign_lead \<times> (nat \<rightharpoonup> campaign_lead)" where
  "save update_fields saved_at obj table =
     (case table (cl_id obj) of
        None \<Rightarrow> Inl (LibraryError ''Save with update_fields did not affect any rows.'')
      | Some row \<Rightarrow>
          (let obj = (if ''updated_at'' \<in> set update_fields then obj\<lparr>updated_at := saved_at\<rparr>
                      else obj);
               row = fold (\<lambda>name. write_column name obj) update_fields row
           in Inr (obj, table(cl_id obj \<mapsto> row))))"


definition mark_responded ::
  "datetime \<Rightarrow> datetime \<Rightarrow> campaign_lead \<Rightarrow> (nat \<rightharpoonup> campaign_lead)
     \<Rightarrow> exn + campaign_lead \<times> (nat \<rightharpoonup> campaign_lead)" where
  "mark_responded now saved_at self table =
     (let self = (if status self \<noteq> GOAL_MET then self\<lparr>status := RESPONDED\<rparr> else self);
          self = self\<lparr>last_customer_message_at := Some now\<rparr>
      in save [''status'', ''last_customer_message_at'', ''updated_at''] saved_at self table)"



section \<open>Leads and the shortlist (crm/models.py, crm/schemas.py, crm/services.py)\<close>

text \<open>
  A Lead row. Dates are day numbers, amounts of money are rationals (\<open>Decimal\<close>); a
  nullable column is an \<open>option\<close>. The choice fields hold their string values.
\<close>

type_synonym date = nat

record lead =
  l_id :: nat
  crm_id :: string
  first_name :: string
  last_name :: string
  email :: string
  phone_number :: string
  project_enquired :: string
  unit_type :: string
  l_status :: string
  l_budget_min :: "rat option"
  l_budget_max :: "rat option"
  family_size :: "nat option"
  location_preference :: string
  purchase_motive :: string
  financing_readiness :: string
  last_conversation_date :: "date option"
  last_conversation_summary :: string
  l_created_at :: datetime
  l_updated_at :: datetime



















section \<open>The lead nurture agent (agents/langgraph_agent.py, LeadNurtureAgent)\<close>

record campaign =
  c_id :: nat
  c_name :: string
  c_project_name :: string
  message_channel :: string
  offer_details :: string
  filters :: string
  created_by :: nat
  c_created_at :: datetime
  c_updated_at :: datetime

text \<open>\<open>DocumentAnswer\<close>, what the document tool returns.\<close>

record document_answer =
  answer :: string
  sources :: "string list"
  da_route :: string




text \<open>
  What the agent works with: the LLM of its router, the two tables it reads, and its two
  backends, \<open>t2sql_service.answer\<close> and \<open>rag_tool.answer\<close>, each of which returns or
  raises.
\<close>

record agent =
  agent_llm :: llm
  lead_objects :: "nat \<rightharpoonup> lead"
  campaign_objects :: "nat \<rightharpoonup> campaign"
  t2sql_service :: "string \<Rightarrow> exn + text_to_sql_result"
  rag_tool :: "lead \<Rightarrow> campaign \<Rightarrow> string \<Rightarrow> exn + document_answer"














section \<open>Properties\<close>

subsection \<open>Strings\<close>


text \<open>\<open>lower_char\<close> on the bits of a character: the fast way to evaluate it.\<close>

lemma lower_char_Char:
  "lower_char (Char b0 b1 b2 b3 b4 b5 b6 b7) =
     (if \<not> b7 \<and> b6 \<and> \<not> b5 \<and> (b0 \<or> b1 \<or> b2 \<or> b3 \<or> b4)
         \<and> \<not> (b4 \<and> b3 \<and> (b2 \<or> (b1 \<and> b0)))
      then Char b0 b1 b2 b3 b4 True b6 b7 else Char b0 b1 b2 b3 b4 b5 b6 b7)"
  unfolding lower_char_def
  by (cases b7; cases b6; cases b5; cases b4; cases b3; cases b2; cases b1; cases b0) simp_all







subsection \<open>The router\<close>

lemma heuristic_route_cases:
  "heuristic_route query =
     (if \<exists>keyword \<in> set sql_keywords. str_in keyword (str_lower query)
      then ''t2sql'' else ''rag'')"
  by (simp add: heuristic_route_def list_ex_iff)

text \<open>
  C1. \<open>QueryRouter.decide\<close> returns one of the two routes \<open>t2sql\<close> and \<open>rag\<close>. When
  the LLM reply, stripped and lowered, contains \<open>sql\<close> the route is \<open>t2sql\<close>; when it
  does not but contains \<open>rag\<close> the route is \<open>rag\<close>; when the LLM call raises or the
  reply contains neither, the route is \<open>t2sql\<close> if the lowered query contains one of the
  thirteen keywords and \<open>rag\<close> otherwise.
\<close>

theorem decide_routes:
  fixes llm :: llm and query :: string
  defines "reply \<equiv> response_content (llm (router_prompt query))"
  defines "by_keywords \<equiv>
    (if \<exists>keyword \<in> {''count'', ''number'', ''total'', ''average'', ''avg'', ''sum'', ''ratio'',
                       ''metrics'', ''how many'', ''max'', ''min'', ''budget'', ''revenue''}.
          str_in keyword (str_lower query)
     then ''t2sql'' else ''rag'')"
  shows "decide llm query \<in> {''t2sql'', ''rag''}
       \<and> (\<forall>content. reply = Some content \<and> str_in ''sql'' (str_lower (strip content))
            \<longrightarrow> decide llm query = ''t2sql'')
       \<and> (\<forall>content. reply = Some content \<and> \<not> str_in ''sql'' (str_lower (strip content))
              \<and> str_in ''rag'' (str_lower (strip content))
            \<longrightarrow> decide llm query = ''rag'')
       \<and> (reply = None \<or>
            (\<exists>content. reply = Some content \<and> \<not> str_in ''sql'' (str_lower (strip content))
              \<and> \<not> str_in ''rag'' (str_lower (strip content)))
            \<longrightarrow> decide llm query = by_keywords)"
proof -
  have kw: "heuristic_route query = by_keywords"
    unfolding by_keywords_def heuristic_route_cases by (simp add: sql_keywords_def)
  have range: "heuristic_route query \<in> {''t2sql'', ''rag''}"
    by (simp add: heuristic_route_def Let_def)
  show ?thesis
  proof (cases reply)
    case None
    then show ?thesis using kw range by (simp add: decide_def reply_def)
  next
    case (Some content)
    then show ?thesis using kw range by (simp add: decide_def reply_def Let_def)
  qed
qed

theorem decide_routes_witness:
  "decide (\<lambda>prompt. Inr (WithContent (TextContent '' T2SQL\<newline>''))) ''What amenities are there?'' = ''t2sql''
   \<and> decide (\<lambda>prompt. Inr (NoContent ''rag'')) ''How many leads are connected?'' = ''rag''
   \<and> decide (\<lambda>prompt. Inl (LibraryError ''timeout'')) ''How many leads are connected?'' = ''t2sql''
   \<and> decide (\<lambda>prompt. Inr (WithContent (TextContent ''unsure''))) ''Tell me about the pool'' = ''rag''"
  using decide_routes [of "\<lambda>prompt. Inr (WithContent (TextContent '' T2SQL\<newline>''))" "''What amenities are there?''"]
        decide_routes [of "\<lambda>prompt. Inr (NoContent ''rag'')" "''How many leads are connected?''"]
        decide_routes [of "\<lambda>prompt. Inl (LibraryError ''timeout'')" "''How many leads are connected?''"]
        decide_routes [of "\<lambda>prompt. Inr (WithContent (TextContent ''unsure''))" "''Tell me about the pool''"]
  by (simp add: str_lower_def lower_char_Char strip_def lstrip_def rstrip_def is_space_def)


subsection \<open>The formatter\<close>






subsection \<open>Campaign leads\<close>

lemma mark_responded_result:
  assumes "table (cl_id self) = Some row"
  shows "mark_responded now saved_at self table =
           Inr (self\<lparr>status := (if status self = ''goal_met'' then status self else ''responded''),
                      last_customer_message_at := Some now, updated_at := saved_at\<rparr>,
                table(cl_id self \<mapsto>
                  row\<lparr>status := (if status self = ''goal_met'' then status self else ''responded''),
                      last_customer_message_at := Some now, updated_at := saved_at\<rparr>))"
  using assms
  by (simp add: mark_responded_def save_def write_column_def GOAL_MET_def RESPONDED_def Let_def)



text \<open>
  C9. On a stored CampaignLead, \<open>mark_responded\<close> returns; it sets the status to
  \<open>responded\<close> unless the status is \<open>goal_met\<close>, which it leaves; on the object and
  in the row it changes \<open>status\<close>, \<open>last_customer_message_at\<close> and \<open>updated_at\<close> and
  nothing else, and no other row; so a lead at \<open>goal_met\<close> stays there.
\<close>

theorem mark_responded_effect:
  assumes "table (cl_id self) = Some row"
  shows "\<exists>self' table' new_status.
           mark_responded now saved_at self table = Inr (self', table')
         \<and> new_status = (if status self = ''goal_met'' then ''goal_met'' else ''responded'')
         \<and> self' = self\<lparr>status := new_status, last_customer_message_at := Some now,
                         updated_at := saved_at\<rparr>
         \<and> table' = table(cl_id self \<mapsto>
                        row\<lparr>status := new_status, last_customer_message_at := Some now,
                            updated_at := saved_at\<rparr>)
         \<and> (status self = ''goal_met'' \<longrightarrow>
               status self' = ''goal_met'' \<and> map_option status (table' (cl_id self)) = Some ''goal_met'')"
  using assms mark_responded_result [where table = table and self = self and row = row]
  by auto

theorem mark_responded_effect_witness:
  "(\<exists>self' table'.
      mark_responded 20 21
        \<lparr>cl_id = 1, campaign_id = 3, lead_id = 8, shortlisted_at = 5,
         personalized_message = ''Hi'', dispatch_time = Some 6, status = ''goal_met'',
         goal_outcome = ''visit'', scheduled_datetime = None, last_customer_message_at = None,
         last_agent_message_at = Some 9, updated_at = 9\<rparr>
        [1 \<mapsto> \<lparr>cl_id = 1, campaign_id = 3, lead_id = 8, shortlisted_at = 5,
               personalized_message = ''Hi'', dispatch_time = Some 6, status = ''goal_met'',
               goal_outcome = ''visit'', scheduled_datetime = None,
               last_customer_message_at = None, last_agent_message_at = Some 9,
               updated_at = 9\<rparr>] = Inr (self', table')
      \<and> status self' = ''goal_met'' \<and> last_customer_message_at self' = Some 20
      \<and> updated_at self' = 21 \<and> map_option status (table' 1) = Some ''goal_met'')"
  using mark_responded_effect
    [of "[1 \<mapsto> \<lparr>cl_id = 1, campaign_id = 3, lead_id = 8, shortlisted_at = 5,
               personalized_message = ''Hi'', dispatch_time = Some 6, status = ''goal_met'',
               goal_outcome = ''visit'', scheduled_datetime = None,
               last_customer_message_at = None, last_agent_message_at = Some 9,
               updated_at = 9\<rparr>]"
        "\<lparr>cl_id = 1, campaign_id = 3, lead_id = 8, shortlisted_at = 5,
         personalized_message = ''Hi'', dispatch_time = Some 6, status = ''goal_met'',
         goal_outcome = ''visit'', scheduled_datetime = None, last_customer_message_at = None,
         last_agent_message_at = Some 9, updated_at = 9\<rparr>"
        "\<lparr>cl_id = 1, campaign_id = 3, lead_id = 8, shortlisted_at = 5,
         personalized_message = ''Hi'', dispatch_time = Some 6, status = ''goal_met'',
         goal_outcome = ''visit'', scheduled_datetime = None, last_customer_message_at = None,
         last_agent_message_at = Some 9, updated_at = 9\<rparr>" 20 21]
  by auto





subsection \<open>The shortlist\<close>





subsection \<open>The shortlist service\<close>








subsection \<open>The agent\<close>







end
